theory Spec2Isabelle
  imports Complex_Main "HOL-Library.Multiset" "HOL-Library.Word"
begin

section \<open>JavaScript control flow and the hosted store\<close>

text \<open>
  The server code is asynchronous JavaScript talking to a hosted Postgres through the
  PostgREST client. Two things the code does beyond computing values are made explicit:
  \<^item> an exception (\<^verbatim>\<open>throw\<close>, a rejected promise) is the value \<open>Throws x\<close> of the
    result type \<open>'a outcome\<close>; a \<^verbatim>\<open>try { ... } catch (error) { ... }\<close> block is
    \<open>try_catch\<close>;
  \<^item> the tables are passed in and returned; what the store does with one request is a
    parameter of type \<open>backend\<close>: it executes the statement (\<open>Up\<close>), it answers with
    an error object and leaves the table alone (\<open>Refuses e\<close>), or the awaited promise
    rejects (\<open>Rejects x\<close>).
  The logger only writes to the console; it is not part of the state.
\<close>

datatype pg_error = PgError (code: string)

datatype exn = PgThrown pg_error | RangeError | FetchFailed

datatype 'a outcome = Returns 'a | Throws exn

datatype backend = Up | Refuses pg_error | Rejects exn

definition try_catch ::
  "'a outcome \<times> 's \<Rightarrow> (exn \<Rightarrow> 's \<Rightarrow> 'a outcome \<times> 's) \<Rightarrow> 'a outcome \<times> 's" where
  "try_catch body handler =
     (case body of (Throws x, s) \<Rightarrow> handler x s | (Returns v, s) \<Rightarrow> (Returns v, s))"

section \<open>CacheService (services/cacheService.js)\<close>

text \<open>
  Table \<^verbatim>\<open>cache\<close>: \<^verbatim>\<open>key text PRIMARY KEY\<close>, \<^verbatim>\<open>value jsonb NOT NULL\<close>,
  \<^verbatim>\<open>expires_at timestamptz NOT NULL\<close>.
  A timestamp is the time value of a JavaScript \<^verbatim>\<open>Date\<close>: integer milliseconds since
  the epoch. \<^verbatim>\<open>toISOString\<close> and the parse by \<^verbatim>\<open>new Date(string)\<close> keep the
  millisecond, so the stored \<^verbatim>\<open>expires_at\<close> is that integer.
\<close>

type_synonym time = int

record 'v cache_row =
  cache_value :: 'v
  expires_at :: time

type_synonym 'v cache = "string \<rightharpoonup> 'v cache_row"

text \<open>
  \<^verbatim>\<open>Date.prototype.toISOString\<close> throws a RangeError when the time value is outside
  \<open>\<plusminus>8.64e15\<close> ms.
\<close>

definition valid_date :: "time \<Rightarrow> bool" where
  "valid_date t = (\<bar>t\<bar> \<le> 8640000000000000)"

text \<open>
  \<^verbatim>\<open>.from(table).select(...).eq(key_column, key).single()\<close> on a table keyed by
  its primary key: the reply is the pair \<^verbatim>\<open>{ data, error }\<close>. With no row,
  \<^verbatim>\<open>single()\<close> answers \<^verbatim>\<open>data: null\<close> and the error code PGRST116.
\<close>

definition select_single ::
  "backend \<Rightarrow> ('k \<rightharpoonup> 'r) \<Rightarrow> 'k \<Rightarrow> ('r option \<times> pg_error option) outcome" where
  "select_single b tbl key =
     (case b of
        Rejects x \<Rightarrow> Throws x
      | Refuses e \<Rightarrow> Returns (None, Some e)
      | Up \<Rightarrow> (case tbl key of
                 None \<Rightarrow> Returns (None, Some (PgError ''PGRST116''))
               | Some row \<Rightarrow> Returns (Some row, None)))"

text \<open>\<^verbatim>\<open>.from('cache').upsert({ key, value, expires_at })\<close>: insert or replace by primary key.\<close>

definition upsert ::
  "backend \<Rightarrow> 'v cache \<Rightarrow> string \<Rightarrow> 'v cache_row \<Rightarrow> pg_error option outcome \<times> 'v cache" where
  "upsert b tbl key row =
     (case b of
        Rejects x \<Rightarrow> (Throws x, tbl)
      | Refuses e \<Rightarrow> (Returns (Some e), tbl)
      | Up \<Rightarrow> (Returns None, tbl(key \<mapsto> row)))"

text \<open>\<^verbatim>\<open>.from('cache').delete().eq('key', key)\<close>.\<close>

definition delete_eq ::
  "backend \<Rightarrow> 'v cache \<Rightarrow> string \<Rightarrow> pg_error option outcome \<times> 'v cache" where
  "delete_eq b tbl key =
     (case b of
        Rejects x \<Rightarrow> (Throws x, tbl)
      | Refuses e \<Rightarrow> (Returns (Some e), tbl)
      | Up \<Rightarrow> (Returns None, tbl(key := None)))"

text \<open>\<^verbatim>\<open>.from('cache').delete().lt('expires_at', now)\<close>.\<close>

definition delete_lt ::
  "backend \<Rightarrow> 'v cache \<Rightarrow> time \<Rightarrow> pg_error option outcome \<times> 'v cache" where
  "delete_lt b tbl now =
     (case b of
        Rejects x \<Rightarrow> (Throws x, tbl)
      | Refuses e \<Rightarrow> (Returns (Some e), tbl)
      | Up \<Rightarrow> (Returns None,
               (\<lambda>k. case tbl k of
                       None \<Rightarrow> None
                     | Some row \<Rightarrow> if expires_at row < now then None else Some row)))"

text \<open>
  \<^verbatim>\<open>
  static async delete(key) {
    try {
      const { error } = await supabase.from('cache').delete().eq('key', key);
      if (error) throw error;
    } catch (error) { logger.error('Cache delete error:', error); }
  }
  \<close>
\<close>

definition CacheService_delete ::
  "'v cache \<Rightarrow> backend \<Rightarrow> string \<Rightarrow> unit outcome \<times> 'v cache" where
  "CacheService_delete tbl b key =
     try_catch
       (case delete_eq b tbl key of
          (Throws x, tbl') \<Rightarrow> (Throws x, tbl')
        | (Returns (Some e), tbl') \<Rightarrow> (Throws (PgThrown e), tbl')
        | (Returns None, tbl') \<Rightarrow> (Returns (), tbl'))
       (\<lambda>error tbl'. (Returns (), tbl'))"

text \<open>
  \<^verbatim>\<open>
  static async get(key) {
    try {
      const { data, error } = await supabase.from('cache')
        .select('value, expires_at').eq('key', key).single();
      if (error && error.code !== 'PGRST116') { throw error; }
      if (!data) return null;
      if (new Date(data.expires_at) < new Date()) {
        await this.delete(key);
        return null;
      }
      return data.value;
    } catch (error) { logger.error('Cache get error:', error); return null; }
  }
  \<close>
  \<open>now\<close> is the clock read by \<^verbatim>\<open>new Date()\<close>; \<open>b_sel\<close> and \<open>b_del\<close> are what the
  store does with the select and with the delete. \<^verbatim>\<open>null\<close> is \<open>None\<close>;
  \<open>after_check\<close> is the code after the first \<^verbatim>\<open>if\<close>.
\<close>

definition CacheService_get ::
  "'v cache \<Rightarrow> time \<Rightarrow> backend \<Rightarrow> backend \<Rightarrow> string \<Rightarrow> 'v option outcome \<times> 'v cache" where
  "CacheService_get tbl now b_sel b_del key =
     try_catch
       (case select_single b_sel tbl key of
          Throws x \<Rightarrow> (Throws x, tbl)
        | Returns (data, error) \<Rightarrow>
            (let after_check =
                   (case data of
                      None \<Rightarrow> (Returns None, tbl)
                    | Some row \<Rightarrow>
                        if expires_at row < now
                        then (case CacheService_delete tbl b_del key of
                                (Throws x, tbl') \<Rightarrow> (Throws x, tbl')
                              | (Returns u, tbl') \<Rightarrow> (Returns None, tbl'))
                        else (Returns (Some (cache_value row)), tbl))
             in case error of
                  Some e \<Rightarrow>
                    if code e \<noteq> ''PGRST116'' then (Throws (PgThrown e), tbl)
                    else after_check
                | None \<Rightarrow> after_check))
       (\<lambda>error tbl'. (Returns None, tbl'))"

text \<open>
  \<^verbatim>\<open>
  static async set(key, value, ttlMinutes = 60) {
    try {
      const expiresAt = new Date(Date.now() + ttlMinutes * 60 * 1000);
      const { error } = await supabase.from('cache')
        .upsert({ key, value, expires_at: expiresAt.toISOString() });
      if (error) throw error;
      logger.debug(...);
    } catch (error) { logger.error('Cache set error:', error); }
  }
  \<close>
  The third argument is \<open>None\<close> when the caller omits it. Every caller passes a whole
  number of minutes, so \<open>ttlMinutes\<close> is an \<open>int\<close>.
\<close>

definition CacheService_set ::
  "'v cache \<Rightarrow> time \<Rightarrow> backend \<Rightarrow> string \<Rightarrow> 'v \<Rightarrow> int option \<Rightarrow> unit outcome \<times> 'v cache" where
  "CacheService_set tbl now b key v ttl_arg =
     try_catch
       (let ttlMinutes = (case ttl_arg of None \<Rightarrow> 60 | Some m \<Rightarrow> m);
            expiresAt = now + ttlMinutes * 60 * 1000
        in if \<not> valid_date expiresAt then (Throws RangeError, tbl)
           else (case upsert b tbl key \<lparr>cache_value = v, expires_at = expiresAt\<rparr> of
                   (Throws x, tbl') \<Rightarrow> (Throws x, tbl')
                 | (Returns (Some e), tbl') \<Rightarrow> (Throws (PgThrown e), tbl')
                 | (Returns None, tbl') \<Rightarrow> (Returns (), tbl')))
       (\<lambda>error tbl'. (Returns (), tbl'))"

text \<open>
  \<^verbatim>\<open>
  export async function cleanExpiredCache() {
    try {
      const { error } = await supabase.from('cache').delete()
        .lt('expires_at', new Date().toISOString());
      if (error) throw error;
      logger.info('Expired cache entries cleaned');
    } catch (error) { logger.error('Cache cleanup error:', error); }
  }
  \<close>
\<close>

definition cleanExpiredCache ::
  "'v cache \<Rightarrow> time \<Rightarrow> backend \<Rightarrow> unit outcome \<times> 'v cache" where
  "cleanExpiredCache tbl now b =
     try_catch
       (case delete_lt b tbl now of
          (Throws x, tbl') \<Rightarrow> (Throws x, tbl')
        | (Returns (Some e), tbl') \<Rightarrow> (Throws (PgThrown e), tbl')
        | (Returns None, tbl') \<Rightarrow> (Returns (), tbl'))
       (\<lambda>error tbl'. (Returns (), tbl'))"

section \<open>Disasters and their audit trail (routes/disasters.js)\<close>

text \<open>
  Table \<^verbatim>\<open>disasters\<close>: \<^verbatim>\<open>id uuid PRIMARY KEY\<close>, \<^verbatim>\<open>title\<close>,
  \<^verbatim>\<open>location_name\<close>, \<^verbatim>\<open>location geography(POINT, 4326)\<close>, \<^verbatim>\<open>description\<close>,
  \<^verbatim>\<open>tags text[]\<close>, \<^verbatim>\<open>owner_id\<close>, \<^verbatim>\<open>audit_trail jsonb\<close> (an array of entries).
  The columns \<^verbatim>\<open>created_at\<close> and \<^verbatim>\<open>updated_at\<close> are filled by the database and
  read by no handler below; they are left out. A point is the pair (longitude, latitude),
  the order of \<^verbatim>\<open>POINT(lon lat)\<close>. The severity analysis is an opaque annotation of
  type \<open>'sev\<close>.
\<close>

type_synonym uuid = "128 word"

type_synonym point = "real \<times> real"

datatype changes = Changes "string option" "string option" "string option" "string list option"

record 'sev audit_entry =
  action :: string
  user_id :: string
  timestamp :: time
  changes :: changes
  severity_analysis :: "'sev option"

record 'sev disaster =
  d_id :: uuid
  d_title :: string
  d_location_name :: "string option"
  d_location :: "point option"
  d_description :: string
  d_tags :: "string list"
  d_owner_id :: string
  d_audit_trail :: "'sev audit_entry list"

type_synonym 'sev disasters = "uuid \<rightharpoonup> 'sev disaster"

record user =
  u_id :: string
  u_role :: string
  u_name :: string

text \<open>The mock authentication middleware sets the same user on every request.\<close>

definition authenticate :: user where
  "authenticate = \<lparr>u_id = ''netrunnerX'', u_role = ''admin'', u_name = ''Emergency Coordinator''\<rparr>"

text \<open>
  The JSON request body. A field that is absent (\<^verbatim>\<open>undefined\<close>) or \<^verbatim>\<open>null\<close> is
  \<open>None\<close>. \<^verbatim>\<open>!x\<close> holds of an absent field, of the empty string and of the number 0;
  an array is always truthy.
\<close>

record body =
  title :: "string option"
  location_name :: "string option"
  description :: "string option"
  tags :: "string list option"
  latitude :: "real option"
  longitude :: "real option"

definition truthy_str :: "string option \<Rightarrow> bool" where
  "truthy_str x = (case x of None \<Rightarrow> False | Some s \<Rightarrow> s \<noteq> [])"

definition truthy_num :: "real option \<Rightarrow> bool" where
  "truthy_num x = (case x of None \<Rightarrow> False | Some n \<Rightarrow> n \<noteq> 0)"

text \<open>\<^verbatim>\<open>a || b\<close> on an optional string.\<close>

definition or_else :: "string option \<Rightarrow> string option \<Rightarrow> string option" where
  "or_else a b = (if truthy_str a then a else b)"

datatype 'p payload = ErrorBody string | Json 'p

datatype 'p response = Response (status: nat) (payload: "'p payload")

text \<open>
  What a request finds around it: the fresh id of \<^verbatim>\<open>uuidv4()\<close>, the clock, what
  \<^verbatim>\<open>GeminiService.analyzeDisasterSeverity\<close> gives when it is called (\<open>None\<close> when the
  call throws and the handler keeps \<^verbatim>\<open>null\<close>), and what the store does with the
  handler's first and second request.
\<close>

record 'sev env =
  new_uuid :: uuid
  clock :: time
  severity :: "'sev option"
  b_first :: backend
  b_second :: backend

text \<open>
  \<^verbatim>\<open>.from('disasters').insert(row).select().single()\<close>: a row whose primary key exists is
  refused (unique violation 23505); otherwise the row is stored and returned.
\<close>

definition insert_single ::
  "backend \<Rightarrow> ('k \<rightharpoonup> 'r) \<Rightarrow> 'k \<Rightarrow> 'r \<Rightarrow> ('r option \<times> pg_error option) outcome \<times> ('k \<rightharpoonup> 'r)" where
  "insert_single b tbl key row =
     (case b of
        Rejects x \<Rightarrow> (Throws x, tbl)
      | Refuses e \<Rightarrow> (Returns (None, Some e), tbl)
      | Up \<Rightarrow> (case tbl key of
                 Some old \<Rightarrow> (Returns (None, Some (PgError ''23505'')), tbl)
               | None \<Rightarrow> (Returns (Some row, None), tbl(key \<mapsto> row))))"

text \<open>
  \<^verbatim>\<open>.from('disasters').update(fields).eq('id', id).select().single()\<close>: the fields
  (the function \<open>upd\<close>) are written into the row that is in the table now; with no such row \<^verbatim>\<open>single()\<close>
  answers PGRST116.
\<close>

definition update_single ::
  "backend \<Rightarrow> ('k \<rightharpoonup> 'r) \<Rightarrow> 'k \<Rightarrow> ('r \<Rightarrow> 'r) \<Rightarrow> ('r option \<times> pg_error option) outcome \<times> ('k \<rightharpoonup> 'r)" where
  "update_single b tbl key upd =
     (case b of
        Rejects x \<Rightarrow> (Throws x, tbl)
      | Refuses e \<Rightarrow> (Returns (None, Some e), tbl)
      | Up \<Rightarrow> (case tbl key of
                 None \<Rightarrow> (Returns (None, Some (PgError ''PGRST116'')), tbl)
               | Some cur \<Rightarrow> (Returns (Some (upd cur), None), tbl(key \<mapsto> upd cur))))"

text \<open>
  \<^verbatim>\<open>
  router.post('/disasters', authenticate, async (req, res) => {
    try {
      const { title, location_name, description, tags, latitude, longitude } = req.body;
      if (!title || !description) { return res.status(400).json({ error: ... }); }
      const disasterId = uuidv4();
      let severityAnalysis = null;
      try { severityAnalysis = await GeminiService.analyzeDisasterSeverity(...); } catch ...
      const auditEntry = { action: 'create', user_id: req.user.id,
        timestamp: new Date().toISOString(),
        changes: { title, location_name, description, tags },
        severity_analysis: severityAnalysis };
      let locationData = null;
      if (latitude && longitude) { locationData = `POINT(${longitude} ${latitude})`; }
      const { data, error } = await supabase.from('disasters').insert({ id: disasterId,
          title, location_name, location: locationData, description, tags: tags || [],
          owner_id: req.user.id, audit_trail: [auditEntry] }).select().single();
      if (error) throw error;
      ... res.status(201).json({ disaster: data, severity_analysis: severityAnalysis });
    } catch (error) { ... res.status(500).json({ error: 'Failed to create disaster' }); }
  });
  \<close>
  The event sent over the socket and the log line are not part of the stored state.
\<close>

definition post_disasters ::
  "'sev disasters \<Rightarrow> 'sev env \<Rightarrow> user \<Rightarrow> body \<Rightarrow>
   ('sev disaster option \<times> 'sev option) response outcome \<times> 'sev disasters" where
  "post_disasters db e usr req =
     try_catch
       (if \<not> truthy_str (title req) \<or> \<not> truthy_str (description req)
        then (Returns (Response 400 (ErrorBody ''Title and description are required'')), db)
        else
          (let disasterId = new_uuid e;
               severityAnalysis = severity e;
               auditEntry = \<lparr>action = ''create'', user_id = u_id usr, timestamp = clock e,
                   changes = Changes (title req) (location_name req) (description req) (tags req),
                   severity_analysis = severityAnalysis\<rparr>;
               locationData =
                 (if truthy_num (latitude req) \<and> truthy_num (longitude req)
                  then (case (longitude req, latitude req) of
                          (Some lon, Some lat) \<Rightarrow> Some (lon, lat) | _ \<Rightarrow> None)
                  else None);
               row = \<lparr>d_id = disasterId,
                   d_title = (case title req of Some t \<Rightarrow> t | None \<Rightarrow> []),
                   d_location_name = location_name req,
                   d_location = locationData,
                   d_description = (case description req of Some t \<Rightarrow> t | None \<Rightarrow> []),
                   d_tags = (case tags req of Some ts \<Rightarrow> ts | None \<Rightarrow> []),
                   d_owner_id = u_id usr,
                   d_audit_trail = [auditEntry]\<rparr>
           in case insert_single (b_first e) db disasterId row of
                (Throws x, db') \<Rightarrow> (Throws x, db')
              | (Returns (data, Some err), db') \<Rightarrow> (Throws (PgThrown err), db')
              | (Returns (data, None), db') \<Rightarrow>
                  (Returns (Response 201 (Json (data, severityAnalysis))), db')))
       (\<lambda>error db'. (Returns (Response 500 (ErrorBody ''Failed to create disaster'')), db'))"

text \<open>
  \<^verbatim>\<open>PUT /disasters/:id\<close> awaits the store twice: it reads the row, then writes the
  fields computed from the row it read. Between the two awaits other handlers run, so
  the handler is two steps over the table, with the row it read carried from the first
  to the second.
  \<^verbatim>\<open>
      const { data: existing, error: fetchError } = await supabase.from('disasters')
        .select('*').eq('id', id).single();
      if (fetchError) throw fetchError;
      if (!existing) { return res.status(404).json({ error: 'Disaster not found' }); }
      if (req.user.role !== 'admin' && existing.owner_id !== req.user.id) {
        return res.status(403).json({ error: 'Insufficient permissions' }); }
  \<close>
\<close>

record 'sev put_request =
  p_id :: uuid
  p_user :: user
  p_body :: body
  p_env :: "'sev env"

datatype 'sev task =
    Start "'sev put_request"
  | Fetched "'sev put_request" "'sev disaster"
  | Finished "('sev disaster option \<times> 'sev option) response"

definition put_failed :: "('sev disaster option \<times> 'sev option) response" where
  "put_failed = Response 500 (ErrorBody ''Failed to update disaster'')"

definition put_fetch :: "'sev disasters \<Rightarrow> 'sev put_request \<Rightarrow> 'sev task" where
  "put_fetch db r =
     (case select_single (b_first (p_env r)) db (p_id r) of
        Throws x \<Rightarrow> Finished put_failed
      | Returns (data, Some fetchError) \<Rightarrow> Finished put_failed
      | Returns (None, None) \<Rightarrow> Finished (Response 404 (ErrorBody ''Disaster not found''))
      | Returns (Some existing, None) \<Rightarrow>
          if u_role (p_user r) \<noteq> ''admin'' \<and> d_owner_id existing \<noteq> u_id (p_user r)
          then Finished (Response 403 (ErrorBody ''Insufficient permissions''))
          else Fetched r existing)"

text \<open>
  \<^verbatim>\<open>
      let severityAnalysis = null;
      if (description !== existing.description ||
          JSON.stringify(tags) !== JSON.stringify(existing.tags)) {
        try { severityAnalysis = await GeminiService.analyzeDisasterSeverity(...); } catch ...
      }
      const auditEntry = { action: 'update', user_id: req.user.id,
        timestamp: new Date().toISOString(),
        changes: { title, location_name, description, tags },
        severity_analysis: severityAnalysis };
      let locationData = existing.location;
      if (latitude && longitude) { locationData = `POINT(${longitude} ${latitude})`; }
      const { data, error } = await supabase.from('disasters').update({
          title: title || existing.title,
          location_name: location_name || existing.location_name,
          location: locationData,
          description: description || existing.description,
          tags: tags || existing.tags,
          audit_trail: [...existing.audit_trail, auditEntry]
        }).eq('id', id).select().single();
      if (error) throw error;
      ... res.json({ disaster: data, severity_analysis: severityAnalysis });
  \<close>
\<close>

definition put_audit_entry :: "'sev put_request \<Rightarrow> 'sev disaster \<Rightarrow> 'sev audit_entry" where
  "put_audit_entry r existing =
     (let req = p_body r;
          severityAnalysis =
            (if description req \<noteq> Some (d_description existing)
                \<or> tags req \<noteq> Some (d_tags existing)
             then severity (p_env r) else None)
      in \<lparr>action = ''update'', user_id = u_id (p_user r), timestamp = clock (p_env r),
           changes = Changes (title req) (location_name req) (description req) (tags req),
           severity_analysis = severityAnalysis\<rparr>)"

definition put_fields :: "'sev put_request \<Rightarrow> 'sev disaster \<Rightarrow> 'sev disaster \<Rightarrow> 'sev disaster" where
  "put_fields r existing cur =
     (let req = p_body r;
          locationData =
            (if truthy_num (latitude req) \<and> truthy_num (longitude req)
             then (case (longitude req, latitude req) of
                     (Some lon, Some lat) \<Rightarrow> Some (lon, lat) | _ \<Rightarrow> d_location existing)
             else d_location existing)
      in cur\<lparr>d_title := (case or_else (title req) (Some (d_title existing)) of
                            Some t \<Rightarrow> t | None \<Rightarrow> []),
             d_location_name := or_else (location_name req) (d_location_name existing),
             d_location := locationData,
             d_description := (case or_else (description req) (Some (d_description existing)) of
                                 Some t \<Rightarrow> t | None \<Rightarrow> []),
             d_tags := (case tags req of Some ts \<Rightarrow> ts | None \<Rightarrow> d_tags existing),
             d_audit_trail := d_audit_trail existing @ [put_audit_entry r existing]\<rparr>)"

definition put_write ::
  "'sev disasters \<Rightarrow> 'sev put_request \<Rightarrow> 'sev disaster \<Rightarrow> 'sev disasters \<times> 'sev task" where
  "put_write db r existing =
     (case update_single (b_second (p_env r)) db (p_id r) (put_fields r existing) of
        (Throws x, db') \<Rightarrow> (db', Finished put_failed)
      | (Returns (data, Some err), db') \<Rightarrow> (db', Finished put_failed)
      | (Returns (data, None), db') \<Rightarrow>
          (db', Finished (Response 200
             (Json (data, severity_analysis (put_audit_entry r existing))))))"

text \<open>One await of one handler.\<close>

fun step :: "'sev disasters \<Rightarrow> 'sev task \<Rightarrow> 'sev disasters \<times> 'sev task" where
  "step db (Start r) = (db, put_fetch db r)"
| "step db (Fetched r existing) = put_write db r existing"
| "step db (Finished resp) = (db, Finished resp)"

text \<open>The handler running alone: both awaits back to back.\<close>

definition put_disasters ::
  "'sev disasters \<Rightarrow> 'sev put_request \<Rightarrow> 'sev disasters \<times> 'sev task" where
  "put_disasters db r = (case step db (Start r) of (db1, t1) \<Rightarrow> step db1 t1)"

text \<open>
  Several handlers in flight: the schedule names, await by await, which handler runs
  next.
\<close>

fun run :: "nat list \<Rightarrow> 'sev disasters \<times> 'sev task list \<Rightarrow> 'sev disasters \<times> 'sev task list" where
  "run [] s = s"
| "run (i # sched) (db, ts) =
     (if i < length ts
      then (case step db (ts ! i) of (db', t') \<Rightarrow> run sched (db', ts[i := t']))
      else run sched (db, ts))"

text \<open>Requests served one after the other, each to completion.\<close>

fun run_serial ::
  "'sev disasters \<Rightarrow> 'sev put_request list \<Rightarrow> 'sev disasters \<times> 'sev task list" where
  "run_serial db [] = (db, [])"
| "run_serial db (r # rs) =
     (case put_disasters db r of
        (db1, t) \<Rightarrow> (case run_serial db1 rs of (db2, ts) \<Rightarrow> (db2, t # ts)))"

definition succeeded :: "'sev task \<Rightarrow> bool" where
  "succeeded t = (case t of Finished resp \<Rightarrow> status resp = 200 | _ \<Rightarrow> False)"

definition trail_length :: "'sev disasters \<Rightarrow> uuid \<Rightarrow> nat" where
  "trail_length db i = (case db i of None \<Rightarrow> 0 | Some d \<Rightarrow> length (d_audit_trail d))"

text \<open>The successful updates of incident \<open>i\<close> among served requests.\<close>

fun successes :: "uuid \<Rightarrow> 'sev put_request list \<Rightarrow> 'sev task list \<Rightarrow> nat" where
  "successes i (r # rs) (t # ts) =
     (if p_id r = i \<and> succeeded t then 1 else 0) + successes i rs ts"
| "successes i rs ts = 0"

section \<open>Proximity search (the SQL function of the migration)\<close>

text \<open>
  Table \<^verbatim>\<open>resources\<close>, with the columns the function reads under the alias
  \<^verbatim>\<open>r\<close>. A nullable column is an option.
\<close>

record resource =
  r_id :: uuid
  r_disaster_id :: "uuid option"
  r_name :: string
  r_location_name :: "string option"
  r_location :: "point option"
  r_type :: string
  r_capacity :: "int option"
  r_contact :: "string option"
  r_status :: "string option"
  r_created_at :: "time option"

text \<open>A row of the \<^verbatim>\<open>RETURNS TABLE\<close>.\<close>

record nearby =
  n_id :: uuid
  n_disaster_id :: "uuid option"
  n_name :: string
  n_location_name :: "string option"
  n_type :: string
  n_capacity :: "int option"
  n_contact :: "string option"
  n_status :: "string option"
  distance_meters :: real
  n_created_at :: "time option"

text \<open>
  The function casts both points to \<^verbatim>\<open>geometry\<close>. On geometries \<^verbatim>\<open>ST_Distance\<close>
  is the Cartesian distance of the coordinate pairs, in the units of the coordinates
  (degrees for SRID 4326), and \<^verbatim>\<open>ST_DWithin(a, b, d)\<close> holds when that distance is at
  most \<open>d\<close>. The \<^verbatim>\<open>FLOAT\<close> arguments are taken as reals.
\<close>

definition ST_Point :: "real \<Rightarrow> real \<Rightarrow> point" where
  "ST_Point x y = (x, y)"

definition ST_Distance :: "point \<Rightarrow> point \<Rightarrow> real" where
  "ST_Distance a b = sqrt ((fst a - fst b)\<^sup>2 + (snd a - snd b)\<^sup>2)"

definition ST_DWithin :: "point \<Rightarrow> point \<Rightarrow> real \<Rightarrow> bool" where
  "ST_DWithin a b d = (ST_Distance a b \<le> d)"

text \<open>
  \<^verbatim>\<open>
  SELECT r.id, r.disaster_id, r.name, r.location_name, r.type, r.capacity, r.contact,
    r.status,
    ST_Distance(r.location::geometry,
                ST_SetSRID(ST_Point(search_lon, search_lat), 4326)::geometry) AS distance_meters,
    r.created_at
  FROM resources r
  WHERE r.location IS NOT NULL
    AND ST_DWithin(r.location::geometry,
                   ST_SetSRID(ST_Point(search_lon, search_lat), 4326)::geometry, search_radius)
    AND r.status = 'active'
  ORDER BY distance_meters ASC;
  \<close>
  \<open>selected\<close> is the \<^verbatim>\<open>WHERE\<close> clause and the select list on one row: \<open>None\<close> when
  the row is filtered out.
\<close>

definition selected :: "real \<Rightarrow> real \<Rightarrow> int \<Rightarrow> resource \<Rightarrow> nearby option" where
  "selected search_lat search_lon search_radius r =
     (case r_location r of
        None \<Rightarrow> None
      | Some loc \<Rightarrow>
          if ST_DWithin loc (ST_Point search_lon search_lat) (real_of_int search_radius)
             \<and> r_status r = Some ''active''
          then Some \<lparr>n_id = r_id r, n_disaster_id = r_disaster_id r, n_name = r_name r,
                 n_location_name = r_location_name r, n_type = r_type r,
                 n_capacity = r_capacity r, n_contact = r_contact r, n_status = r_status r,
                 distance_meters = ST_Distance loc (ST_Point search_lon search_lat),
                 n_created_at = r_created_at r\<rparr>
          else None)"

text \<open>
  \<^verbatim>\<open>ORDER BY distance_meters ASC\<close> names one sort key. SQL leaves the order of rows
  with equal keys to the engine, so the query has a set of possible answers: every
  arrangement of the selected rows that ascends in \<open>distance_meters\<close>. The table is
  the list of its rows in the order the engine scans them.
\<close>

definition find_nearby_resources_answer ::
  "resource list \<Rightarrow> real \<Rightarrow> real \<Rightarrow> int \<Rightarrow> nearby list \<Rightarrow> bool" where
  "find_nearby_resources_answer resources search_lat search_lon search_radius out =
     (mset out = mset (List.map_filter (selected search_lat search_lon search_radius) resources)
      \<and> sorted (map distance_meters out))"

text \<open>
  One of these answers, as a function: the selected rows in scan order, sorted by a
  stable sort.
\<close>

definition find_nearby_resources ::
  "resource list \<Rightarrow> real \<Rightarrow> real \<Rightarrow> int \<Rightarrow> nearby list" where
  "find_nearby_resources resources search_lat search_lon search_radius =
     sort_key distance_meters
       (List.map_filter (selected search_lat search_lon search_radius) resources)"

text \<open>
  The distance the specification asks for, to compare with: the great-circle distance
  in meters between two (longitude, latitude) points in degrees, on a sphere of the
  given radius.
\<close>

definition radians :: "real \<Rightarrow> real" where
  "radians deg = deg * pi / 180"

definition geodesic_distance :: "real \<Rightarrow> point \<Rightarrow> point \<Rightarrow> real" where
  "geodesic_distance radius a b =
     radius * arccos (sin (radians (snd a)) * sin (radians (snd b))
                      + cos (radians (snd a)) * cos (radians (snd b))
                        * cos (radians (fst a - fst b)))"

definition earth_radius_meters :: real where
  "earth_radius_meters = 6371008.8"

section \<open>Resource lookup for an incident (routes/resources.js)\<close>

text \<open>
  \<^verbatim>\<open>
  router.get('/disasters/:id/resources', async (req, res) => {
    try {
      const { id } = req.params;
      const { lat, lon, radius = 10000 } = req.query;
      let searchLat = lat;
      let searchLon = lon;
      if (!searchLat || !searchLon) {
        const { data: disaster, error: disasterError } = await supabase.from('disasters')
          .select('location').eq('id', id).single();
        if (disasterError) throw disasterError;
        if (!disaster || !disaster.location) {
          return res.status(400).json({
            error: 'Location coordinates required or disaster must have location set' });
        }
        const locationMatch = disaster.location.match(/POINT\(([^ ]+) ([^ ]+)\)/);
        if (locationMatch) {
          searchLon = parseFloat(locationMatch[1]);
          searchLat = parseFloat(locationMatch[2]);
        }
      }
      ... the search itself ...
    } catch (error) { ... res.status(500).json({ error: 'Failed to fetch resources' }); }
  });
  \<close>
  A query parameter is a string or absent. After the block, \<^verbatim>\<open>searchLat\<close> and
  \<^verbatim>\<open>searchLon\<close> are strings from the query, numbers from \<^verbatim>\<open>parseFloat\<close>, or
  \<^verbatim>\<open>undefined\<close>. Three things outside this function are parameters: \<open>wire\<close>, the
  text in which the client receives a geography value; \<open>parse_point\<close>, the regular
  expression match followed by the two \<^verbatim>\<open>parseFloat\<close> calls (longitude first, \<open>None\<close>
  when the text does not match); and \<open>search\<close>, the rest of the handler from the
  remote call on, given the centre and the radius parameter.
\<close>

datatype jsval = Undefined | Str string | Num real | NaN

definition of_query :: "string option \<Rightarrow> jsval" where
  "of_query x = (case x of None \<Rightarrow> Undefined | Some s \<Rightarrow> Str s)"

definition truthy :: "jsval \<Rightarrow> bool" where
  "truthy v = (case v of Undefined \<Rightarrow> False | Str s \<Rightarrow> s \<noteq> [] | Num n \<Rightarrow> n \<noteq> 0 | NaN \<Rightarrow> False)"

record query =
  lat :: "string option"
  lon :: "string option"
  radius :: "string option"

definition get_disaster_resources ::
  "(point \<Rightarrow> string) \<Rightarrow> (string \<Rightarrow> (jsval \<times> jsval) option) \<Rightarrow>
   (jsval \<Rightarrow> jsval \<Rightarrow> string option \<Rightarrow> 'p response outcome) \<Rightarrow>
   'sev disasters \<Rightarrow> backend \<Rightarrow> uuid \<Rightarrow> query \<Rightarrow> 'p response outcome" where
  "get_disaster_resources wire parse_point search db b ident q =
     (case
        (let searchLat = of_query (lat q);
             searchLon = of_query (lon q)
         in if \<not> truthy searchLat \<or> \<not> truthy searchLon
            then (case select_single b db ident of
                    Throws x \<Rightarrow> Throws x
                  | Returns (data, Some disasterError) \<Rightarrow> Throws (PgThrown disasterError)
                  | Returns (None, None) \<Rightarrow>
                      Returns (Response 400 (ErrorBody
                        ''Location coordinates required or disaster must have location set''))
                  | Returns (Some disaster, None) \<Rightarrow>
                      (case map_option wire (d_location disaster) of
                         None \<Rightarrow>
                           Returns (Response 400 (ErrorBody
                             ''Location coordinates required or disaster must have location set''))
                       | Some text \<Rightarrow>
                           if text = []
                           then Returns (Response 400 (ErrorBody
                             ''Location coordinates required or disaster must have location set''))
                           else (case parse_point text of
                                   Some (plon, plat) \<Rightarrow> search plat plon (radius q)
                                 | None \<Rightarrow> search searchLat searchLon (radius q))))
            else search searchLat searchLon (radius q))
      of Throws error \<Rightarrow> Returns (Response 500 (ErrorBody ''Failed to fetch resources''))
       | Returns resp \<Rightarrow> Returns resp)"

section \<open>Example data\<close>

text \<open>
  Concrete requests and rows on which the theorems below are evaluated: an incident
  created through \<open>post_disasters\<close> on the empty table and the row it stores, update
  requests by two users, one whose write the store refuses, resources on the equator,
  and a stand-in for the rest of the lookup handler.
\<close>

definition example_body :: body where
  "example_body = \<lparr>title = Some ''Flood'', location_name = Some ''Riverside'',
     description = Some ''River overflow'', tags = Some [''flood''],
     latitude = None, longitude = None\<rparr>"

definition example_env :: "nat env" where
  "example_env = \<lparr>new_uuid = 42, clock = 1000, severity = Some 5, b_first = Up, b_second = Up\<rparr>"

definition example_db :: "nat disasters" where
  "example_db = snd (post_disasters Map.empty example_env authenticate example_body)"

definition example_put :: "string \<Rightarrow> time \<Rightarrow> nat put_request" where
  "example_put who t = \<lparr>p_id = 42,
     p_user = \<lparr>u_id = who, u_role = ''admin'', u_name = who\<rparr>,
     p_body = \<lparr>title = Some who, location_name = None, description = None, tags = None,
       latitude = None, longitude = None\<rparr>,
     p_env = \<lparr>new_uuid = 0, clock = t, severity = None, b_first = Up, b_second = Up\<rparr>\<rparr>"



definition example_resource :: "uuid \<Rightarrow> point option \<Rightarrow> string \<Rightarrow> resource" where
  "example_resource i loc st = \<lparr>r_id = i, r_disaster_id = None, r_name = ''Shelter'',
     r_location_name = None, r_location = loc, r_type = ''shelter'', r_capacity = Some 200,
     r_contact = None, r_status = Some st, r_created_at = None\<rparr>"

definition example_search :: "jsval \<Rightarrow> jsval \<Rightarrow> string option \<Rightarrow> nat response outcome" where
  "example_search la lo ra = Returns (Response 200 (Json 0))"

section \<open>CacheService: basic facts\<close>

lemma CacheService_delete_Up:
  "CacheService_delete tbl Up key = (Returns (), tbl(key := None))"
  by (simp add: CacheService_delete_def delete_eq_def try_catch_def)

lemma CacheService_delete_returns:
  "fst (CacheService_delete tbl b key) = Returns ()"
  by (cases b) (simp_all add: CacheService_delete_def delete_eq_def try_catch_def)


lemma CacheService_get_hit:
  "tbl key = Some row \<Longrightarrow> \<not> expires_at row < now \<Longrightarrow>
   CacheService_get tbl now Up b_del key = (Returns (Some (cache_value row)), tbl)"
  by (simp add: CacheService_get_def select_single_def try_catch_def Let_def)

lemma CacheService_get_stale:
  "tbl key = Some row \<Longrightarrow> expires_at row < now \<Longrightarrow>
   CacheService_get tbl now Up Up key = (Returns None, tbl(key := None))"
  by (simp add: CacheService_get_def select_single_def try_catch_def Let_def
      CacheService_delete_Up)




lemma CacheService_set_Up:
  "valid_date (now + (case ttl_arg of None \<Rightarrow> 60 | Some m \<Rightarrow> m) * 60 * 1000) \<Longrightarrow>
   CacheService_set tbl now Up key v ttl_arg =
     (Returns (), tbl(key \<mapsto> \<lparr>cache_value = v,
        expires_at = now + (case ttl_arg of None \<Rightarrow> 60 | Some m \<Rightarrow> m) * 60 * 1000\<rparr>))"
  by (simp add: CacheService_set_def upsert_def try_catch_def Let_def)



lemma CacheService_get_stale_fst:
  "tbl key = Some row \<Longrightarrow> expires_at row < now \<Longrightarrow>
   fst (CacheService_get tbl now Up b_del key) = Returns None"
proof -
  assume a: "tbl key = Some row" "expires_at row < now"
  obtain tbl' where d: "CacheService_delete tbl b_del key = (Returns (), tbl')"
    using CacheService_delete_returns [of tbl b_del key]
    by (cases "CacheService_delete tbl b_del key") simp
  from a d show ?thesis
    by (simp add: CacheService_get_def select_single_def try_catch_def Let_def)
qed

section \<open>CacheService: the claims\<close>

text \<open>
  C2, as stated: \<open>get\<close> treats an entry whose \<open>expires_at\<close> is at or before the
  current time as a miss and deletes it, so that once the TTL has fully elapsed after a
  \<open>set\<close> the next \<open>get\<close> misses. The comparison in the code is strict. At the
  instant \<open>expires_at = now\<close> the entry is returned and stays in the table, and a
  \<open>get\<close> exactly one TTL after the \<open>set\<close> is still a hit.
\<close>

theorem get_expiry_boundary_counterexample:
  "CacheService_get [''k'' \<mapsto> \<lparr>cache_value = (7::nat), expires_at = 1000\<rparr>] 1000 Up Up ''k''
     = (Returns (Some 7), [''k'' \<mapsto> \<lparr>cache_value = 7, expires_at = 1000\<rparr>])
   \<and> fst (CacheService_get
            (snd (CacheService_set Map.empty 0 Up ''k'' (7::nat) (Some 1)))
            (0 + 1 * 60 * 1000) Up Up ''k'') = Returns (Some 7)"
  by (simp add: CacheService_set_Up valid_date_def CacheService_get_hit)

text \<open>
  C2, amended: with the store reachable, \<open>get\<close> on a stored entry is a miss that
  deletes the entry exactly when \<open>expires_at\<close> is strictly before the current time, and
  otherwise returns the value and leaves the table as it is (the miss is returned also
  when the delete request fails). After \<open>set key v ttl\<close> at time \<open>t0\<close> on any
  table, whether or not it held the key before, \<open>get\<close> returns \<open>v\<close> up to and
  including the instant \<open>t0 + ttl\<close> and misses, deleting the entry, once more than
  \<open>ttl\<close> minutes have elapsed.
\<close>

theorem get_strict_expiry:
  "(tbl key = Some row \<longrightarrow>
      CacheService_get tbl now Up Up key =
        (if expires_at row < now then (Returns None, tbl(key := None))
         else (Returns (Some (cache_value row)), tbl))
      \<and> fst (CacheService_get tbl now Up b_del key) =
        (if expires_at row < now then Returns None else Returns (Some (cache_value row))))
   \<and> (valid_date (t0 + ttl * 60 * 1000) \<longrightarrow>
      CacheService_get (snd (CacheService_set tbl t0 Up key v (Some ttl))) now Up Up key =
        (if t0 + ttl * 60 * 1000 < now then (Returns None, tbl(key := None))
         else (Returns (Some v),
               tbl(key \<mapsto> \<lparr>cache_value = v, expires_at = t0 + ttl * 60 * 1000\<rparr>))))"
proof (intro conjI impI)
  assume a: "tbl key = Some row"
  show "CacheService_get tbl now Up Up key =
           (if expires_at row < now then (Returns None, tbl(key := None))
            else (Returns (Some (cache_value row)), tbl))"
    using a by (simp add: CacheService_get_hit CacheService_get_stale)
  show "fst (CacheService_get tbl now Up b_del key) =
           (if expires_at row < now then Returns None else Returns (Some (cache_value row)))"
    using a by (simp add: CacheService_get_hit CacheService_get_stale_fst)
next
  assume v: "valid_date (t0 + ttl * 60 * 1000)"
  let ?row = "\<lparr>cache_value = v, expires_at = t0 + ttl * 60 * 1000\<rparr>"
  have s: "snd (CacheService_set tbl t0 Up key v (Some ttl)) = tbl(key \<mapsto> ?row)"
    using v by (simp add: CacheService_set_Up)
  show "CacheService_get (snd (CacheService_set tbl t0 Up key v (Some ttl))) now Up Up key =
           (if t0 + ttl * 60 * 1000 < now then (Returns None, tbl(key := None))
            else (Returns (Some v), tbl(key \<mapsto> ?row)))"
    unfolding s
    using CacheService_get_hit [of "tbl(key \<mapsto> ?row)" key ?row now Up]
      CacheService_get_stale [of "tbl(key \<mapsto> ?row)" key ?row now]
    by simp
qed

theorem get_strict_expiry_witness:
  "CacheService_get [''old'' \<mapsto> \<lparr>cache_value = (1::nat), expires_at = 500\<rparr>] 501 Up Up ''old''
     = (Returns None, Map.empty)
   \<and> CacheService_get [''old'' \<mapsto> \<lparr>cache_value = (1::nat), expires_at = 500\<rparr>] 500 Up Up ''old''
     = (Returns (Some 1), [''old'' \<mapsto> \<lparr>cache_value = 1, expires_at = 500\<rparr>])
   \<and> valid_date (0 + 1440 * 60 * 1000)
   \<and> CacheService_get (snd (CacheService_set Map.empty 0 Up ''geo'' (2::nat) (Some 1440)))
        82800000 Up Up ''geo''
     = (Returns (Some 2), [''geo'' \<mapsto> \<lparr>cache_value = 2, expires_at = 86400000\<rparr>])
   \<and> CacheService_get (snd (CacheService_set Map.empty 0 Up ''geo'' (2::nat) (Some 1440)))
        86400000 Up Up ''geo''
     = (Returns (Some 2), [''geo'' \<mapsto> \<lparr>cache_value = 2, expires_at = 86400000\<rparr>])
   \<and> CacheService_get (snd (CacheService_set Map.empty 0 Up ''geo'' (2::nat) (Some 1440)))
        90000000 Up Up ''geo''
     = (Returns None, Map.empty)"
  using get_strict_expiry [of "[''old'' \<mapsto> \<lparr>cache_value = (1::nat), expires_at = 500\<rparr>]"
      "''old''" "\<lparr>cache_value = (1::nat), expires_at = 500\<rparr>" 501 Up 0 0 2]
    get_strict_expiry [of "[''old'' \<mapsto> \<lparr>cache_value = (1::nat), expires_at = 500\<rparr>]"
      "''old''" "\<lparr>cache_value = (1::nat), expires_at = 500\<rparr>" 500 Up 0 0 2]
    get_strict_expiry [of Map.empty "''geo''" "\<lparr>cache_value = (1::nat), expires_at = 500\<rparr>"
      82800000 Up 0 1440 2]
    get_strict_expiry [of Map.empty "''geo''" "\<lparr>cache_value = (1::nat), expires_at = 500\<rparr>"
      86400000 Up 0 1440 2]
    get_strict_expiry [of Map.empty "''geo''" "\<lparr>cache_value = (1::nat), expires_at = 500\<rparr>"
      90000000 Up 0 1440 2]
  by (simp add: valid_date_def)



text \<open>
  C8: a second \<open>set\<close> on a key replaces value and expiry whatever the first one left.
  When the store executes the second \<open>set\<close>, the stored entry is \<open>v2\<close> with expiry
  \<open>t2 + ttl2\<close> (minutes, in milliseconds), for every state left by the first \<open>set\<close>;
  a later \<open>get\<close> returns \<open>v2\<close> until that expiry and a miss after it, never \<open>v1\<close>.
\<close>

theorem set_overwrites:
  assumes "valid_date (t2 + ttl2 * 60 * 1000)"
  shows "snd (CacheService_set (snd (CacheService_set tbl t1 b1 key v1 ttl1))
                t2 Up key v2 (Some ttl2)) key
           = Some \<lparr>cache_value = v2, expires_at = t2 + ttl2 * 60 * 1000\<rparr>
         \<and> fst (CacheService_get
                  (snd (CacheService_set (snd (CacheService_set tbl t1 b1 key v1 ttl1))
                          t2 Up key v2 (Some ttl2)))
                  now Up b_del key)
           = (if t2 + ttl2 * 60 * 1000 < now then Returns None else Returns (Some v2))"
proof -
  let ?row = "\<lparr>cache_value = v2, expires_at = t2 + ttl2 * 60 * 1000\<rparr>"
  let ?tbl1 = "snd (CacheService_set tbl t1 b1 key v1 ttl1)"
  have s: "snd (CacheService_set ?tbl1 t2 Up key v2 (Some ttl2)) = ?tbl1(key \<mapsto> ?row)"
    using assms by (simp add: CacheService_set_Up)
  show ?thesis
    unfolding s
    using CacheService_get_hit [of "?tbl1(key \<mapsto> ?row)" key ?row now b_del]
      CacheService_get_stale_fst [of "?tbl1(key \<mapsto> ?row)" key ?row now b_del]
    by simp
qed

theorem set_overwrites_witness:
  "valid_date (2000 + 30 * 60 * 1000)
   \<and> snd (CacheService_set (snd (CacheService_set Map.empty 1000 Up ''k'' (1::nat) (Some 1440)))
            2000 Up ''k'' 2 (Some 30)) ''k''
       = Some \<lparr>cache_value = 2, expires_at = 1802000\<rparr>
   \<and> fst (CacheService_get
            (snd (CacheService_set
                    (snd (CacheService_set Map.empty 1000 Up ''k'' (1::nat) (Some 1440)))
                    2000 Up ''k'' 2 (Some 30)))
            3000 Up Up ''k'') = Returns (Some 2)"
  using set_overwrites [of 2000 30 Map.empty 1000 Up "''k''" "1::nat" "Some 1440" 2 3000 Up]
  by (simp add: valid_date_def)

text \<open>
  C10: \<open>set\<close> called without a TTL stores the entry with expiry \<open>now\<close> plus 60
  minutes, the same as an explicit TTL of 60.
\<close>

theorem set_default_ttl:
  assumes "valid_date (now + 60 * 60 * 1000)"
  shows "CacheService_set tbl now Up key v None
           = (Returns (), tbl(key \<mapsto> \<lparr>cache_value = v, expires_at = now + 60 * 60 * 1000\<rparr>))
         \<and> CacheService_set tbl now Up key v None = CacheService_set tbl now Up key v (Some 60)"
  using assms by (simp add: CacheService_set_Up)

theorem set_default_ttl_witness:
  "valid_date (1000 + 60 * 60 * 1000)
   \<and> CacheService_set Map.empty 1000 Up ''k'' (7::nat) None
       = (Returns (), [''k'' \<mapsto> \<lparr>cache_value = 7, expires_at = 3601000\<rparr>])"
  using set_default_ttl [of 1000 Map.empty "''k''" "7::nat"]
  by (simp add: valid_date_def)

section \<open>Audit trail: facts about the two handlers\<close>

lemma put_fetch_cases:
  "put_fetch db r = Fetched r' existing \<Longrightarrow> r' = r \<and> db (p_id r) = Some existing"
  by (auto simp: put_fetch_def select_single_def split: backend.splits option.splits if_splits)

lemma put_fetch_not_Start: "put_fetch db r \<noteq> Start r'"
  by (auto simp: put_fetch_def select_single_def split: backend.splits option.splits if_splits)

lemma put_write_success:
  "put_write db r existing = (db', t) \<Longrightarrow> succeeded t \<Longrightarrow>
   \<exists>cur. db (p_id r) = Some cur \<and> db' = db(p_id r \<mapsto> put_fields r existing cur)"
  by (auto simp: put_write_def update_single_def succeeded_def put_failed_def
      split: backend.splits option.splits)

lemma put_write_failure:
  "put_write db r existing = (db', t) \<Longrightarrow> \<not> succeeded t \<Longrightarrow> db' = db"
  by (auto simp: put_write_def update_single_def succeeded_def put_failed_def
      split: backend.splits option.splits)

lemma put_fields_trail:
  "d_audit_trail (put_fields r existing cur) = d_audit_trail existing @ [put_audit_entry r existing]"
  by (simp add: put_fields_def Let_def)


lemma put_disasters_success:
  assumes "put_disasters db r = (db', t)" and "succeeded t"
  shows "\<exists>old. db (p_id r) = Some old \<and> db' = db(p_id r \<mapsto> put_fields r old old)"
proof -
  show ?thesis
  proof (cases "put_fetch db r")
    case (Start r')
    then show ?thesis using put_fetch_not_Start by blast
  next
    case (Fetched r' existing)
    then have e: "r' = r" "db (p_id r) = Some existing"
      using put_fetch_cases by blast+
    from assms(1) Fetched e have "put_write db r existing = (db', t)"
      by (simp add: put_disasters_def)
    from put_write_success [OF this assms(2)] e show ?thesis by simp
  next
    case (Finished resp)
    with assms show ?thesis
      by (auto simp: put_disasters_def succeeded_def put_fetch_def select_single_def put_failed_def
          split: backend.splits option.splits if_splits)
  qed
qed

lemma put_disasters_failure:
  assumes "put_disasters db r = (db', t)" and "\<not> succeeded t"
  shows "db' = db"
proof (cases "put_fetch db r")
  case (Start r')
  then show ?thesis using put_fetch_not_Start by blast
next
  case (Fetched r' existing)
  then have e: "r' = r" using put_fetch_cases by blast
  from assms(1) Fetched e have "put_write db r existing = (db', t)"
    by (simp add: put_disasters_def)
  from put_write_failure [OF this assms(2)] show ?thesis .
next
  case (Finished resp)
  with assms show ?thesis by (simp add: put_disasters_def)
qed

lemma post_disasters_success:
  assumes "post_disasters db e usr req = (Returns resp, db')" and "status resp = 201"
  shows "db (new_uuid e) = None \<and>
         (\<exists>row entry. db' = db(new_uuid e \<mapsto> row) \<and> d_audit_trail row = [entry]
             \<and> action entry = ''create'')"
  using assms
  by (auto simp: post_disasters_def try_catch_def insert_single_def Let_def
      split: if_splits backend.splits option.splits)

lemma post_disasters_failure:
  assumes "post_disasters db e usr req = (Returns resp, db')" and "status resp \<noteq> 201"
  shows "db' = db"
  using assms
  by (auto simp: post_disasters_def try_catch_def insert_single_def Let_def
      split: if_splits backend.splits option.splits)

lemma put_disasters_trail:
  assumes "put_disasters db r = (db1, t)"
  shows "trail_length db1 i = trail_length db i + (if p_id r = i \<and> succeeded t then 1 else 0)"
proof (cases "succeeded t")
  case True
  from put_disasters_success [OF assms True]
  obtain old where o: "db (p_id r) = Some old" "db1 = db(p_id r \<mapsto> put_fields r old old)"
    by blast
  with True show ?thesis
    by (auto simp: trail_length_def put_fields_trail)
next
  case False
  from put_disasters_failure [OF assms False] False show ?thesis by simp
qed

lemma run_serial_trail:
  "run_serial db rs = (db', ts) \<Longrightarrow>
   trail_length db' i = trail_length db i + successes i rs ts"
proof (induction rs arbitrary: db db' ts)
  case Nil
  then show ?case by simp
next
  case (Cons r rs)
  obtain db1 t where p: "put_disasters db r = (db1, t)"
    by (cases "put_disasters db r")
  obtain db2 ts' where q: "run_serial db1 rs = (db2, ts')"
    by (cases "run_serial db1 rs")
  from Cons.prems p q have e: "db' = db2" "ts = t # ts'" by simp_all
  from Cons.IH [OF q] put_disasters_trail [OF p, of i] e show ?case by simp
qed

lemma example_db_eq:
  "post_disasters Map.empty example_env authenticate example_body =
     (Returns (Response 201 (Json (example_db 42, Some 5))), example_db)"
  by (simp add: example_db_def post_disasters_def try_catch_def insert_single_def Let_def
      example_env_def example_body_def truthy_str_def truthy_num_def authenticate_def)

lemma example_db_42:
  "example_db 42 = Some \<lparr>d_id = 42, d_title = ''Flood'', d_location_name = Some ''Riverside'',
      d_location = None, d_description = ''River overflow'', d_tags = [''flood''],
      d_owner_id = ''netrunnerX'',
      d_audit_trail = [\<lparr>action = ''create'', user_id = ''netrunnerX'', timestamp = 1000,
         changes = Changes (Some ''Flood'') (Some ''Riverside'') (Some ''River overflow'') (Some [''flood'']),
         severity_analysis = Some 5\<rparr>]\<rparr>"
  by (simp add: example_db_def post_disasters_def try_catch_def insert_single_def Let_def
      example_env_def example_body_def truthy_str_def truthy_num_def authenticate_def)


section \<open>Audit trail: the claims\<close>




text \<open>
  C4, as stated: after N successful mutations the trail has exactly N entries, also when
  updates run concurrently. The handler reads the whole trail and later writes the
  whole trail back. With two updates in flight on the incident created above, scheduled
  read, read, write, write, both answer 200 and the trail has 2 entries after 3
  successful mutations: the second write puts back the trail the second handler read,
  without the first handler's entry.
\<close>

theorem concurrent_updates_lose_entry_counterexample:
  "trail_length example_db 42 = 1
   \<and> list_all succeeded
       (snd (run [0, 1, 0, 1]
          (example_db, [Start (example_put ''alice'' 2000), Start (example_put ''bob'' 3000)])))
   \<and> trail_length
       (fst (run [0, 1, 0, 1]
          (example_db, [Start (example_put ''alice'' 2000), Start (example_put ''bob'' 3000)])))
       42 = 2
   \<and> map_option (\<lambda>d. map user_id (d_audit_trail d))
       (fst (run [0, 1, 0, 1]
          (example_db, [Start (example_put ''alice'' 2000), Start (example_put ''bob'' 3000)]))
        42) = Some [''netrunnerX'', ''bob'']"
  by (simp add: example_db_42 trail_length_def put_fetch_def put_write_def select_single_def
      update_single_def example_put_def succeeded_def put_fields_def put_audit_entry_def Let_def)

text \<open>
  C4, amended: when the updates of an incident are served one after the other, each
  handler finishing its read and write before the next begins, the trail of an incident
  created by a successful create has exactly one entry per successful mutation: one for
  the create plus one for each update that answered 200.
\<close>

theorem serial_updates_keep_every_entry:
  assumes "post_disasters db e usr req = (Returns resp, db0)" and "status resp = 201"
    and "run_serial db0 rs = (db', ts)"
  shows "trail_length db' (new_uuid e) = 1 + successes (new_uuid e) rs ts"
proof -
  from post_disasters_success [OF assms(1,2)]
  have "trail_length db0 (new_uuid e) = 1"
    by (auto simp: trail_length_def)
  with run_serial_trail [OF assms(3), of "new_uuid e"] show ?thesis by simp
qed

theorem serial_updates_keep_every_entry_witness:
  "status (Response 201 (Json (example_db 42, Some (5::nat)))) = 201
   \<and> successes 42 [example_put ''alice'' 2000, example_put ''bob'' 3000]
        (snd (run_serial example_db [example_put ''alice'' 2000, example_put ''bob'' 3000])) = 2
   \<and> trail_length
       (fst (run_serial example_db [example_put ''alice'' 2000, example_put ''bob'' 3000])) 42
      = 3"
proof -
  have s: "successes 42 [example_put ''alice'' 2000, example_put ''bob'' 3000]
        (snd (run_serial example_db [example_put ''alice'' 2000, example_put ''bob'' 3000])) = 2"
    by (simp add: example_db_42 put_disasters_def put_fetch_def put_write_def select_single_def
      update_single_def example_put_def succeeded_def put_fields_def Let_def)
  have r: "run_serial example_db [example_put ''alice'' 2000, example_put ''bob'' 3000]
      = (fst (run_serial example_db [example_put ''alice'' 2000, example_put ''bob'' 3000]),
         snd (run_serial example_db [example_put ''alice'' 2000, example_put ''bob'' 3000]))"
    by simp
  have st: "status (Response 201 (Json (example_db 42, Some (5::nat)))) = 201" by simp
  from serial_updates_keep_every_entry [OF example_db_eq st r] s st
  show ?thesis by (simp add: example_env_def)
qed

section \<open>Proximity search: facts\<close>

lemma pi_ge_three: "3 \<le> pi"
proof -
  have "sin (pi / 6) \<le> pi / 6" by (rule sin_x_le_x) simp
  then show ?thesis by (simp add: sin_30)
qed

lemma ST_Distance_same_lat: "ST_Distance (x, y) (x', y) = \<bar>x - x'\<bar>"
  by (simp add: ST_Distance_def)

lemma ST_Distance_nonneg: "0 \<le> ST_Distance a b"
  by (simp add: ST_Distance_def)

lemma geodesic_on_equator:
  assumes "0 \<le> x" and "x \<le> 180"
  shows "geodesic_distance R (x, 0) (0, 0) = R * (x * pi / 180)"
proof -
  have "0 \<le> x * pi / 180" using assms by simp
  moreover have "x * pi / 180 \<le> pi"
  proof -
    have "x * pi \<le> 180 * pi" using assms by (simp add: mult_right_mono)
    then show ?thesis by simp
  qed
  ultimately have "arccos (cos (x * pi / 180)) = x * pi / 180" by (rule arccos_cos)
  then show ?thesis by (simp add: geodesic_distance_def radians_def)
qed

lemma selected_example:
  "selected 0 0 rad (example_resource i (Some (x, 0)) ''active'') =
     (if \<bar>x\<bar> \<le> real_of_int rad
      then Some \<lparr>n_id = i, n_disaster_id = None, n_name = ''Shelter'', n_location_name = None,
         n_type = ''shelter'', n_capacity = Some 200, n_contact = None, n_status = Some ''active'',
         distance_meters = \<bar>x\<bar>, n_created_at = None\<rparr>
      else None)"
  by (simp add: selected_def example_resource_def ST_DWithin_def ST_Point_def ST_Distance_same_lat)

lemma in_map_filter:
  "y \<in> set (List.map_filter f xs) \<longleftrightarrow> (\<exists>x. x \<in> set xs \<and> f x = Some y)"
  by (induction xs) (auto simp: map_filter_simps split: option.splits)

lemma selected_active:
  "selected search_lat search_lon search_radius r = Some row \<Longrightarrow>
   n_status row = Some ''active'' \<and> r_status r = Some ''active''
   \<and> distance_meters row \<le> real_of_int search_radius"
  by (auto simp: selected_def ST_DWithin_def split: option.splits if_splits)

lemma nearby_only_active:
  "row \<in> set (find_nearby_resources resources search_lat search_lon search_radius) \<Longrightarrow>
   n_status row = Some ''active'' \<and> distance_meters row \<le> real_of_int search_radius"
  by (auto simp: find_nearby_resources_def in_map_filter dest: selected_active)

lemma nearby_boundary_inclusive:
  assumes "r \<in> set resources" and "r_location r = Some loc" and "r_status r = Some ''active''"
  shows "(ST_Distance loc (ST_Point search_lon search_lat) \<le> real_of_int search_radius)
         = (\<exists>row. row \<in> set (find_nearby_resources resources search_lat search_lon search_radius)
              \<and> selected search_lat search_lon search_radius r = Some row)"
  using assms
  by (auto simp: find_nearby_resources_def in_map_filter selected_def ST_DWithin_def)

lemma find_nearby_resources_is_answer:
  "find_nearby_resources_answer resources search_lat search_lon search_radius
     (find_nearby_resources resources search_lat search_lon search_radius)"
  by (simp add: find_nearby_resources_answer_def find_nearby_resources_def)

section \<open>Proximity search: the claims\<close>

text \<open>
  C1: every \<open>distance_meters\<close> returned is the geodesic distance in meters between
  the resource and the centre. The function measures on geometries, so the value is the
  Cartesian distance of the coordinate pairs in degrees. For an active resource at
  \<^verbatim>\<open>POINT(1 0)\<close> and the centre at longitude 0, latitude 0, it returns 1, while the
  two points are more than 100 km apart on the sphere.
\<close>

theorem distance_is_planar_degrees:
  "map distance_meters
     (find_nearby_resources [example_resource 1 (Some (1, 0)) ''active''] 0 0 10000) = [1]
   \<and> 100000 < geodesic_distance earth_radius_meters (1, 0) (0, 0)"
proof
  show "map distance_meters
     (find_nearby_resources [example_resource 1 (Some (1, 0)) ''active''] 0 0 10000) = [1]"
    by (simp add: find_nearby_resources_def selected_example)
  have "geodesic_distance earth_radius_meters (1, 0) (0, 0) = earth_radius_meters * (1 * pi / 180)"
    by (rule geodesic_on_equator) simp_all
  moreover have "100000 < earth_radius_meters * (1 * pi / 180)"
    using pi_ge_three by (simp add: earth_radius_meters_def)
  ultimately show "100000 < geodesic_distance earth_radius_meters (1, 0) (0, 0)" by simp
qed

text \<open>
  C5, as stated: results with equal \<open>distance_meters\<close> are ordered by resource id, so
  the output is one fixed sequence. The query sorts by \<open>distance_meters\<close> only. Two
  active resources one degree east and one degree west of the centre tie at distance 1;
  scanned with id 2 first they come out as 2, 1, and the reverse arrangement is an
  answer of the same query as well.
\<close>

theorem ties_not_ordered_by_id_counterexample:
  "map n_id (find_nearby_resources
       [example_resource 2 (Some (1, 0)) ''active'',
        example_resource 1 (Some (-1, 0)) ''active''] 0 0 10000) = [2, 1]
   \<and> map distance_meters (find_nearby_resources
       [example_resource 2 (Some (1, 0)) ''active'',
        example_resource 1 (Some (-1, 0)) ''active''] 0 0 10000) = [1, 1]
   \<and> find_nearby_resources_answer
       [example_resource 2 (Some (1, 0)) ''active'',
        example_resource 1 (Some (-1, 0)) ''active''] 0 0 10000
       (rev (find_nearby_resources
         [example_resource 2 (Some (1, 0)) ''active'',
          example_resource 1 (Some (-1, 0)) ''active''] 0 0 10000))
   \<and> rev (find_nearby_resources
         [example_resource 2 (Some (1, 0)) ''active'',
          example_resource 1 (Some (-1, 0)) ''active''] 0 0 10000)
      \<noteq> find_nearby_resources
         [example_resource 2 (Some (1, 0)) ''active'',
          example_resource 1 (Some (-1, 0)) ''active''] 0 0 10000"
  by (simp add: find_nearby_resources_def find_nearby_resources_answer_def selected_example)

text \<open>
  C5, amended: every answer of the query ascends in \<open>distance_meters\<close> (each
  distance is at most the next one) and holds the same rows as every other answer; the
  order among rows of equal distance is not fixed by the query.
\<close>

theorem nearby_sorted_by_distance:
  "find_nearby_resources_answer resources search_lat search_lon search_radius
     (find_nearby_resources resources search_lat search_lon search_radius)
   \<and> (find_nearby_resources_answer resources search_lat search_lon search_radius out \<longrightarrow>
     (\<forall>i. Suc i < length out \<longrightarrow> distance_meters (out ! i) \<le> distance_meters (out ! Suc i))
     \<and> mset out = mset (find_nearby_resources resources search_lat search_lon search_radius))"
proof (intro conjI impI)
  show "find_nearby_resources_answer resources search_lat search_lon search_radius
     (find_nearby_resources resources search_lat search_lon search_radius)"
    by (rule find_nearby_resources_is_answer)
next
  assume a: "find_nearby_resources_answer resources search_lat search_lon search_radius out"
  then have s: "sorted (map distance_meters out)"
    by (simp add: find_nearby_resources_answer_def)
  have "\<forall>i. Suc i < length out \<longrightarrow> distance_meters (out ! i) \<le> distance_meters (out ! Suc i)"
  proof (intro allI impI)
    fix i assume i: "Suc i < length out"
    with s have "map distance_meters out ! i \<le> map distance_meters out ! Suc i"
      by (simp add: sorted_iff_nth_Suc)
    with i show "distance_meters (out ! i) \<le> distance_meters (out ! Suc i)" by simp
  qed
  moreover from a
  have "mset out = mset (find_nearby_resources resources search_lat search_lon search_radius)"
    by (simp add: find_nearby_resources_answer_def find_nearby_resources_def)
  ultimately show
    "\<forall>i. Suc i < length out \<longrightarrow> distance_meters (out ! i) \<le> distance_meters (out ! Suc i)"
    and "mset out = mset (find_nearby_resources resources search_lat search_lon search_radius)"
    by blast+
qed

theorem nearby_sorted_by_distance_witness:
  "find_nearby_resources_answer
     [example_resource 1 (Some (2, 0)) ''active'', example_resource 2 (Some (1, 0)) ''active'',
      example_resource 3 (Some (0, 0)) ''full''] 0 0 10000
     (find_nearby_resources
       [example_resource 1 (Some (2, 0)) ''active'', example_resource 2 (Some (1, 0)) ''active'',
        example_resource 3 (Some (0, 0)) ''full''] 0 0 10000)
   \<and> map n_id (find_nearby_resources
       [example_resource 1 (Some (2, 0)) ''active'', example_resource 2 (Some (1, 0)) ''active'',
        example_resource 3 (Some (0, 0)) ''full''] 0 0 10000) = [2, 1]
   \<and> distance_meters (find_nearby_resources
       [example_resource 1 (Some (2, 0)) ''active'', example_resource 2 (Some (1, 0)) ''active'',
        example_resource 3 (Some (0, 0)) ''full''] 0 0 10000 ! 0)
     \<le> distance_meters (find_nearby_resources
       [example_resource 1 (Some (2, 0)) ''active'', example_resource 2 (Some (1, 0)) ''active'',
        example_resource 3 (Some (0, 0)) ''full''] 0 0 10000 ! Suc 0)"
proof -
  let ?rs = "[example_resource 1 (Some (2, 0)) ''active'', example_resource 2 (Some (1, 0)) ''active'',
      example_resource 3 (Some (0, 0)) ''full'']"
  have a: "find_nearby_resources_answer ?rs 0 0 10000 (find_nearby_resources ?rs 0 0 10000)"
    by (rule find_nearby_resources_is_answer)
  have full: "selected 0 0 10000 (example_resource 3 (Some (0, 0)) ''full'') = None"
    by (simp add: selected_def example_resource_def)
  have ids: "map n_id (find_nearby_resources ?rs 0 0 10000) = [2, 1]"
    by (simp add: find_nearby_resources_def selected_example full)
  then have len: "Suc 0 < length (find_nearby_resources ?rs 0 0 10000)"
    by (metis length_map length_Cons list.size(3) lessI)
  from nearby_sorted_by_distance [of ?rs 0 0 10000 "find_nearby_resources ?rs 0 0 10000"] a len
  have "distance_meters (find_nearby_resources ?rs 0 0 10000 ! 0)
     \<le> distance_meters (find_nearby_resources ?rs 0 0 10000 ! Suc 0)" by blast
  with a ids show ?thesis by blast
qed

text \<open>
  C6: only active resources are returned, and the radius is an inclusive bound in
  meters: a resource farther than \<open>radiusMeters\<close> is excluded. The status filter and
  the inclusive comparison hold (\<open>nearby_only_active\<close>, \<open>nearby_boundary_inclusive\<close>),
  but the comparison is between a distance in degrees and the radius. With resources
  about 500 m and 1500 m east of the centre and a radius of 1000, both are returned,
  although the second is more than 1000 m away.
\<close>

theorem radius_in_degrees_includes_far_resource:
  "map n_id (find_nearby_resources
       [example_resource 1 (Some (0.0045, 0)) ''active'',
        example_resource 2 (Some (0.0135, 0)) ''active''] 0 0 1000) = [1, 2]
   \<and> real_of_int 1000 < geodesic_distance earth_radius_meters (0.0135, 0) (0, 0)"
proof
  show "map n_id (find_nearby_resources
       [example_resource 1 (Some (0.0045, 0)) ''active'',
        example_resource 2 (Some (0.0135, 0)) ''active''] 0 0 1000) = [1, 2]"
    by (simp add: find_nearby_resources_def selected_example)
  have "geodesic_distance earth_radius_meters (0.0135, 0) (0, 0)
          = earth_radius_meters * (0.0135 * pi / 180)"
    by (rule geodesic_on_equator) simp_all
  moreover have "1000 < earth_radius_meters * (0.0135 * pi / 180)"
    using pi_ge_three by (simp add: earth_radius_meters_def)
  ultimately show "real_of_int 1000 < geodesic_distance earth_radius_meters (0.0135, 0) (0, 0)"
    by simp
qed

section \<open>Resource lookup: the claim\<close>

text \<open>
  C9: when the caller supplies no centre (the latitude or the longitude parameter is
  missing or empty) and the incident, read from the store, has no location, the lookup
  answers status 400 with the error naming the missing centre, and the search is not
  run.
\<close>

theorem missing_center_is_rejected:
  assumes "\<not> truthy (of_query (lat q)) \<or> \<not> truthy (of_query (lon q))"
    and "db ident = Some d" and "d_location d = None"
  shows "get_disaster_resources wire parse_point search db Up ident q
           = Returns (Response 400 (ErrorBody
               ''Location coordinates required or disaster must have location set''))"
  using assms
  by (auto simp: get_disaster_resources_def select_single_def Let_def)

theorem missing_center_is_rejected_witness:
  "\<not> truthy (of_query (lat \<lparr>lat = None, lon = Some ''77.2'', radius = None\<rparr>))
   \<and> example_db 42 = Some (the (example_db 42))
   \<and> d_location (the (example_db 42)) = None
   \<and> get_disaster_resources (\<lambda>p. ''POINT(0 0)'') (\<lambda>s. None) example_search example_db Up 42
        \<lparr>lat = None, lon = Some ''77.2'', radius = None\<rparr>
      = Returns (Response 400 (ErrorBody
               ''Location coordinates required or disaster must have location set''))"
proof -
  have h1: "\<not> truthy (of_query (lat \<lparr>lat = None, lon = Some ''77.2'', radius = None\<rparr>))
      \<or> \<not> truthy (of_query (lon \<lparr>lat = None, lon = Some ''77.2'', radius = None\<rparr>))"
    by (simp add: truthy_def of_query_def)
  have h2: "example_db 42 = Some (the (example_db 42))" by (simp add: example_db_42)
  have h3: "d_location (the (example_db 42)) = None" by (simp add: example_db_42)
  from missing_center_is_rejected [of "\<lparr>lat = None, lon = Some ''77.2'', radius = None\<rparr>"
      example_db 42 "the (example_db 42)" "\<lambda>p. ''POINT(0 0)''" "\<lambda>s. None" example_search]
    h1 h2 h3
  show ?thesis by (simp add: truthy_def of_query_def)
qed

end
